theory Spec2Isabelle
  imports Complex_Main
begin

section \<open>JavaScript values of a request\<close>

text \<open>
  The controller \<^verbatim>\<open>backend/controllers/courseController.js\<close> reads loosely typed
  fields from \<^verbatim>\<open>req.body\<close> and \<^verbatim>\<open>req.query\<close>. A field is absent (undefined),
  null, a boolean, a number or a string; arrays and nested objects are not modelled.

  A number is NaN, an infinity or a finite value. A finite double is modelled by the
  rational it denotes, and a numeral read from a string is rounded to the nearest double
  (\<open>toDouble\<close> below). The sign of zero is not kept: no comparison tells the two
  zeros apart.

  A string is a list of \<^typ>\<open>char\<close>, each standing for one code unit below 256.
\<close>

datatype jsnum = NaN | NegInf | Fin rat | PosInf

datatype jsval = JUndefined | JNull | JBool bool | JNumber jsnum | JString string

fun isNaN :: "jsnum \<Rightarrow> bool" where
  "isNaN NaN = True"
| "isNaN _ = False"

text \<open>The relational operators \<^verbatim>\<open><\<close> and \<^verbatim>\<open>>\<close> on numbers: every comparison with NaN is false.\<close>

fun num_lt :: "jsnum \<Rightarrow> jsnum \<Rightarrow> bool" where
  "num_lt NaN _ = False"
| "num_lt _ NaN = False"
| "num_lt (Fin a) (Fin b) = (a < b)"
| "num_lt _ NegInf = False"
| "num_lt NegInf _ = True"
| "num_lt PosInf _ = False"
| "num_lt _ PosInf = True"

definition num_gt :: "jsnum \<Rightarrow> jsnum \<Rightarrow> bool" where
  "num_gt a b = num_lt b a"

text \<open>The store's \<^verbatim>\<open>$gte\<close> / \<^verbatim>\<open>$lte\<close> on numbers.\<close>

definition num_le :: "jsnum \<Rightarrow> jsnum \<Rightarrow> bool" where
  "num_le a b = (\<not> isNaN a \<and> \<not> isNaN b \<and> \<not> num_lt b a)"

fun negate :: "jsnum \<Rightarrow> jsnum" where
  "negate NaN = NaN"
| "negate NegInf = PosInf"
| "negate (Fin r) = Fin (- r)"
| "negate PosInf = NegInf"

text \<open>Truthiness, as tested by \<^verbatim>\<open>if (prerequisites)\<close> and \<^verbatim>\<open>if (code)\<close>.\<close>

fun truthy :: "jsval \<Rightarrow> bool" where
  "truthy JUndefined = False"
| "truthy JNull = False"
| "truthy (JBool b) = b"
| "truthy (JNumber n) = (\<not> isNaN n \<and> n \<noteq> Fin 0)"
| "truthy (JString s) = (s \<noteq> [])"

section \<open>String built-ins\<close>

definition isWhiteSpace :: "char \<Rightarrow> bool" where
  "isWhiteSpace c = (c \<in> set [CHR 0x09, CHR 0x0A, CHR 0x0B, CHR 0x0C, CHR 0x0D, CHR 0x20, CHR 0xA0])"

text \<open>\<^verbatim>\<open>String.prototype.trim\<close>.\<close>

definition trim :: "string \<Rightarrow> string" where
  "trim s = rev (dropWhile isWhiteSpace (rev (dropWhile isWhiteSpace s)))"

text \<open>\<^verbatim>\<open>s.split(",")\<close>: the pieces between commas; a string without a comma is one piece.\<close>

fun split_acc :: "string \<Rightarrow> string \<Rightarrow> string list" where
  "split_acc acc [] = [rev acc]"
| "split_acc acc (c # cs) =
     (if c = CHR '','' then rev acc # split_acc [] cs else split_acc (c # acc) cs)"

definition split_comma :: "string \<Rightarrow> string list" where
  "split_comma s = split_acc [] s"

text \<open>\<^verbatim>\<open>xs.join(", ")\<close>.\<close>

fun join :: "string list \<Rightarrow> string" where
  "join [] = []"
| "join [x] = x"
| "join (x # y # zs) = x @ '', '' @ join (y # zs)"

section \<open>Numeric built-ins\<close>

text \<open>
  The double nearest to a rational, as the conversion of a numeral yields it: 53
  significant bits, ties to the even significand, steps of 2 to the power -1074 below
  2 to the power -1022, and an infinity from 2 to the power 1024 on.
\<close>

function bitLength :: "int \<Rightarrow> nat" where
  "bitLength n = (if n \<le> 0 then 0 else Suc (bitLength (n div 2)))"
  by pat_completeness auto
termination
  by (relation "measure nat") auto

declare bitLength.simps [simp del]

text \<open>The exponent \<open>e\<close> with \<open>2 ^ e \<le> r < 2 ^ (e + 1)\<close>, for a positive \<open>r\<close>.\<close>

definition exponent2 :: "rat \<Rightarrow> int" where
  "exponent2 r =
     (if 1 \<le> r then int (bitLength \<lfloor>r\<rfloor>) - 1
      else let k = bitLength \<lfloor>1 / r\<rfloor> - 1
           in if r * 2 ^ k = 1 then - int k else - int k - 1)"

definition pow2 :: "int \<Rightarrow> rat" where
  "pow2 e = (if 0 \<le> e then 2 ^ nat e else 1 / 2 ^ nat (- e))"

definition roundHalfEven :: "rat \<Rightarrow> int" where
  "roundHalfEven x =
     (let f = \<lfloor>x\<rfloor>; d = x - of_int f
      in if d < 1 / 2 then f
         else if 1 / 2 < d then f + 1
         else if even f then f else f + 1)"

definition toDouble :: "rat \<Rightarrow> jsnum" where
  "toDouble r =
     (if r = 0 then Fin 0
      else
        let e = max (exponent2 \<bar>r\<bar>) (- 1022)
        in if 1024 \<le> e then (if r < 0 then NegInf else PosInf)
           else
             let q = pow2 (e - 52);
                 n = roundHalfEven (\<bar>r\<bar> / q)
             in if e = 1023 \<and> n = 2 ^ 53 then (if r < 0 then NegInf else PosInf)
                else Fin (if r < 0 then - (of_int n * q) else of_int n * q))"

definition isDigit :: "char \<Rightarrow> bool" where
  "isDigit c = (48 \<le> (of_char c :: nat) \<and> (of_char c :: nat) \<le> 57)"

definition digitsValue :: "string \<Rightarrow> int" where
  "digitsValue ds = foldl (\<lambda>a c. 10 * a + (of_char c - 48)) 0 ds"

text \<open>
  An optional \<^verbatim>\<open>ExponentPart\<close> at the head of a string: the power of ten it denotes and
  what follows it. An \<^verbatim>\<open>e\<close> with no digits after it is not an exponent.
\<close>

definition exponentPart :: "string \<Rightarrow> rat \<times> string" where
  "exponentPart s =
     (case s of
        [] \<Rightarrow> (1, s)
      | c # t \<Rightarrow>
          if c = CHR ''e'' \<or> c = CHR ''E'' then
            (let neg = (case t of [] \<Rightarrow> False | d # _ \<Rightarrow> d = CHR ''-'');
                 u = (case t of [] \<Rightarrow> t
                      | d # t' \<Rightarrow> if d = CHR ''+'' \<or> d = CHR ''-'' then t' else t);
                 ds = takeWhile isDigit u
             in if ds = [] then (1, s)
                else if neg then (1 / 10 ^ nat (digitsValue ds), dropWhile isDigit u)
                else (10 ^ nat (digitsValue ds), dropWhile isDigit u))
          else (1, s))"

text \<open>
  The longest prefix that is a \<^verbatim>\<open>StrUnsignedDecimalLiteral\<close> (\<^verbatim>\<open>Infinity\<close>, or digits
  with an optional fraction and exponent, at least one digit before the exponent), the
  double nearest to its value and the rest of the string; \<open>None\<close> when no prefix is
  one.
\<close>

definition strUnsignedDecimal :: "string \<Rightarrow> (jsnum \<times> string) option" where
  "strUnsignedDecimal s =
     (if take 8 s = ''Infinity'' then Some (PosInf, drop 8 s)
      else
        let d1 = takeWhile isDigit s;
            r1 = dropWhile isDigit s;
            dot = (case r1 of [] \<Rightarrow> False | c # _ \<Rightarrow> c = CHR ''.'');
            d2 = (if dot then takeWhile isDigit (tl r1) else []);
            r2 = (if dot then dropWhile isDigit (tl r1) else r1)
        in if d1 = [] \<and> d2 = [] then None
           else
             let (p, r3) = exponentPart r2
             in Some (toDouble ((of_int (digitsValue d1)
                                 + of_int (digitsValue d2) / 10 ^ length d2) * p), r3))"

definition strDecimal :: "string \<Rightarrow> (jsnum \<times> string) option" where
  "strDecimal s =
     (case s of
        [] \<Rightarrow> None
      | c # t \<Rightarrow>
          if c = CHR ''+'' then strUnsignedDecimal t
          else if c = CHR ''-'' then map_option (\<lambda>(v, r). (negate v, r)) (strUnsignedDecimal t)
          else strUnsignedDecimal s)"

text \<open>
  \<^verbatim>\<open>parseFloat(x)\<close>: the argument is turned into a string, leading white space is
  skipped and the longest decimal prefix is read. A number prints to a string that reads
  back as itself; \<^verbatim>\<open>"undefined"\<close>, \<^verbatim>\<open>"null"\<close>, \<^verbatim>\<open>"true"\<close> and \<^verbatim>\<open>"false"\<close> have no
  decimal prefix.
\<close>

fun parseFloat :: "jsval \<Rightarrow> jsnum" where
  "parseFloat (JString s) =
     (case strDecimal (dropWhile isWhiteSpace s) of None \<Rightarrow> NaN | Some (v, _) \<Rightarrow> v)"
| "parseFloat (JNumber n) = n"
| "parseFloat _ = NaN"

definition hexValue :: "char \<Rightarrow> nat option" where
  "hexValue c =
     (let n = (of_char c :: nat)
      in if 48 \<le> n \<and> n \<le> 57 then Some (n - 48)
         else if 97 \<le> n \<and> n \<le> 102 then Some (n - 87)
         else if 65 \<le> n \<and> n \<le> 70 then Some (n - 55)
         else None)"

definition isRadixDigit :: "nat \<Rightarrow> char \<Rightarrow> bool" where
  "isRadixDigit radix c = (case hexValue c of None \<Rightarrow> False | Some v \<Rightarrow> v < radix)"

definition radixValue :: "nat \<Rightarrow> string \<Rightarrow> int" where
  "radixValue radix ds =
     foldl (\<lambda>a c. int radix * a + (case hexValue c of None \<Rightarrow> 0 | Some v \<Rightarrow> int v)) 0 ds"

text \<open>
  \<^verbatim>\<open>parseInt(s)\<close> with no radix: leading white space and a sign are skipped, \<^verbatim>\<open>0x\<close>
  selects base 16, and the longest run of digits is read; NaN when there is none.
\<close>

definition parseInt :: "string \<Rightarrow> jsnum" where
  "parseInt s =
     (let t = dropWhile isWhiteSpace s;
          neg = (case t of [] \<Rightarrow> False | c # _ \<Rightarrow> c = CHR ''-'');
          t1 = (case t of [] \<Rightarrow> t
                | c # t' \<Rightarrow> if c = CHR ''+'' \<or> c = CHR ''-'' then t' else t);
          hex = (take 2 t1 = ''0x'' \<or> take 2 t1 = ''0X'');
          radix = (if hex then 16 else 10);
          ds = takeWhile (isRadixDigit radix) (if hex then drop 2 t1 else t1)
      in if ds = [] then NaN
         else if neg then toDouble (- of_int (radixValue radix ds))
         else toDouble (of_int (radixValue radix ds)))"

text \<open>
  \<^verbatim>\<open>ToNumber\<close>, the coercion applied to the left operand of \<^verbatim>\<open>x < 1\<close>. A string is
  trimmed on both sides; the empty string is 0; otherwise the whole of it must be a
  decimal literal or a \<^verbatim>\<open>0x\<close>, \<^verbatim>\<open>0o\<close> or \<^verbatim>\<open>0b\<close> integer.
\<close>

definition nonDecimal :: "string \<Rightarrow> int option" where
  "nonDecimal t =
     (let radix = (if take 2 t = ''0x'' \<or> take 2 t = ''0X'' then 16
                   else if take 2 t = ''0o'' \<or> take 2 t = ''0O'' then 8
                   else if take 2 t = ''0b'' \<or> take 2 t = ''0B'' then 2
                   else 0);
          ds = drop 2 t
      in if radix = 0 \<or> ds = [] \<or> \<not> list_all (isRadixDigit radix) ds then None
         else Some (radixValue radix ds))"

definition stringToNumber :: "string \<Rightarrow> jsnum" where
  "stringToNumber s =
     (let t = trim s
      in if t = [] then Fin 0
         else case nonDecimal t of
                Some n \<Rightarrow> toDouble (of_int n)
              | None \<Rightarrow> (case strDecimal t of
                           None \<Rightarrow> NaN
                         | Some (v, r) \<Rightarrow> if r = [] then v else NaN))"

fun toNumber :: "jsval \<Rightarrow> jsnum" where
  "toNumber JUndefined = NaN"
| "toNumber JNull = Fin 0"
| "toNumber (JBool b) = (if b then Fin 1 else Fin 0)"
| "toNumber (JNumber n) = n"
| "toNumber (JString s) = stringToNumber s"

section \<open>The course collection\<close>

text \<open>
  A course document has the fields the controller passes to \<^verbatim>\<open>new Course({...})\<close> and
  the identity \<^verbatim>\<open>_id\<close> the store assigns. The same field names are destructured from
  \<^verbatim>\<open>req.body\<close>, where \<^verbatim>\<open>prerequisites\<close> is still the raw request value; in a stored
  document it is a list of identities, and in a populated one a list of projections.
\<close>

record 'p fields =
  code :: jsval
  name :: jsval
  department :: jsval
  semester :: jsval
  lectureCreditHours :: jsval
  labCreditHours :: jsval
  prerequisites :: 'p

type_synonym body = "jsval fields"

record 'p doc = "'p fields" +
  id' :: nat

type_synonym course = "nat list doc"

text \<open>The projection \<^verbatim>\<open>populate("prerequisites", "code name")\<close> puts in place of an identity.\<close>

record ref =
  ref_id :: nat
  ref_code :: jsval
  ref_name :: jsval

type_synonym populated = "ref list doc"

text \<open>
  The collection: its documents in the order \<^verbatim>\<open>find\<close> returns them, and the next
  identity the store hands out.
\<close>

record db =
  courses :: "course list"
  nextId :: nat

definition wellFormed :: "db \<Rightarrow> bool" where
  "wellFormed d = (distinct (map id' (courses d)) \<and> list_all (\<lambda>c. id' c < nextId d) (courses d))"

text \<open>
  The model \<^verbatim>\<open>Course\<close> is imported from \<^verbatim>\<open>../models/courseSchema.js\<close>, which is not part
  of the sources. What the schema decides is kept as a parameter of every operation that
  writes:
  \<^item> \<open>castPath\<close>: the value a path stores for a given input, \<open>None\<close> when the input
    cannot be cast (a \<^verbatim>\<open>CastError\<close>);
  \<^item> \<open>saveOk\<close>: whether \<^verbatim>\<open>save()\<close> accepts a new document next to the documents already
    there (validators, unique indexes);
  \<^item> \<open>updateOk\<close>: whether \<^verbatim>\<open>findByIdAndUpdate\<close> accepts the changed document next to the
    other documents (unique indexes).
\<close>

datatype path = Code | Name | Department | Semester | LectureCreditHours | LabCreditHours

record schema =
  castPath :: "path \<Rightarrow> jsval \<Rightarrow> jsval option"
  saveOk :: "course list \<Rightarrow> course \<Rightarrow> bool"
  updateOk :: "course list \<Rightarrow> course \<Rightarrow> bool"

text \<open>\<^verbatim>\<open>Course.find({ code: { $in: codes } })\<close>.\<close>

definition find_code_in :: "string list \<Rightarrow> db \<Rightarrow> course list" where
  "find_code_in codes d = filter (\<lambda>c. list_ex (\<lambda>s. code c = JString s) codes) (courses d)"

text \<open>\<^verbatim>\<open>findById\<close>: the first document with the identity.\<close>

definition findById :: "nat \<Rightarrow> db \<Rightarrow> course option" where
  "findById i d = find (\<lambda>c. id' c = i) (courses d)"

fun deleteFirst :: "nat \<Rightarrow> course list \<Rightarrow> course list" where
  "deleteFirst i [] = []"
| "deleteFirst i (c # cs) = (if id' c = i then cs else c # deleteFirst i cs)"

fun replaceFirst :: "nat \<Rightarrow> course \<Rightarrow> course list \<Rightarrow> course list" where
  "replaceFirst i n [] = []"
| "replaceFirst i n (c # cs) = (if id' c = i then n # cs else c # replaceFirst i n cs)"

text \<open>
  \<^verbatim>\<open>populate("prerequisites", "code name")\<close>: every identity is replaced by the projection
  of the document it names, in the order of the array; an identity that names no document
  is dropped.
\<close>

definition project :: "course \<Rightarrow> ref" where
  "project c = \<lparr>ref_id = id' c, ref_code = code c, ref_name = name c\<rparr>"

definition populate :: "db \<Rightarrow> course \<Rightarrow> populated" where
  "populate d c =
     \<lparr>code = code c, name = name c, department = department c, semester = semester c,
      lectureCreditHours = lectureCreditHours c, labCreditHours = labCreditHours c,
      prerequisites = List.map_filter (\<lambda>i. map_option project (findById i d)) (prerequisites c),
      id' = id' c\<rparr>"

section \<open>Responses\<close>

text \<open>\<^verbatim>\<open>res.status(n).json({...})\<close>: the status and the keys of the JSON body.\<close>

datatype json =
  Message string
| MessageCourse string course
| Courses "populated list"

record response =
  status :: nat
  json :: json

definition respond :: "nat \<Rightarrow> json \<Rightarrow> response" where
  "respond n j = \<lparr>status = n, json = j\<rparr>"

section \<open>The controller\<close>

text \<open>
  The filter of the source: the requested codes that none of the found courses carries.
\<close>

definition missingCodes :: "string list \<Rightarrow> course list \<Rightarrow> string list" where
  "missingCodes prerequisiteCodes prerequisiteCourses =
     filter (\<lambda>code'. \<not> list_ex (\<lambda>course. code course = JString code') prerequisiteCourses)
       prerequisiteCodes"

text \<open>
  \<^verbatim>\<open>new Course({...})\<close>: every path is cast by the schema; a path that cannot be cast makes
  the later \<^verbatim>\<open>save()\<close> throw.
\<close>

definition newCourse :: "schema \<Rightarrow> nat \<Rightarrow> body \<Rightarrow> nat list \<Rightarrow> jsnum \<Rightarrow> jsnum \<Rightarrow> course option" where
  "newCourse S i b ids lectureCreditHoursNum labCreditHoursNum =
     Option.bind (castPath S Code (code b)) (\<lambda>c.
     Option.bind (castPath S Name (name b)) (\<lambda>n.
     Option.bind (castPath S Department (department b)) (\<lambda>dp.
     Option.bind (castPath S Semester (semester b)) (\<lambda>sm.
     Option.bind (castPath S LectureCreditHours (JNumber lectureCreditHoursNum)) (\<lambda>lc.
     Option.bind (castPath S LabCreditHours (JNumber labCreditHoursNum)) (\<lambda>lb.
       Some \<lparr>code = c, name = n, department = dp, semester = sm,
             lectureCreditHours = lc, labCreditHours = lb,
             prerequisites = ids, id' = i\<rparr>))))))"

text \<open>
  Lines 38 to 50 of \<^verbatim>\<open>addCourse\<close>: the document is built and saved; an exception of
  \<^verbatim>\<open>save()\<close> is caught and answered with 500, and nothing is stored.
\<close>

definition create :: "schema \<Rightarrow> body \<Rightarrow> nat list \<Rightarrow> jsnum \<Rightarrow> jsnum \<Rightarrow> db \<Rightarrow> response \<times> db" where
  "create S b ids lectureCreditHoursNum labCreditHoursNum d =
     (case newCourse S (nextId d) b ids lectureCreditHoursNum labCreditHoursNum of
        None \<Rightarrow> (respond 500 (Message ''Error adding course''), d)
      | Some c \<Rightarrow>
          if saveOk S (courses d) c
          then (respond 201 (MessageCourse ''Course added successfully'' c),
                d\<lparr>courses := courses d @ [c], nextId := Suc (nextId d)\<rparr>)
          else (respond 500 (Message ''Error adding course''), d))"

definition addCourse :: "schema \<Rightarrow> body \<Rightarrow> db \<Rightarrow> response \<times> db" where
  "addCourse S b d =
     (let lectureCreditHoursNum = parseFloat (lectureCreditHours b);
          labCreditHoursNum = parseFloat (labCreditHours b)
      in if isNaN lectureCreditHoursNum \<or> isNaN labCreditHoursNum
         then (respond 400 (Message ''Invalid credit hours, must be a number''), d)
         else if num_lt lectureCreditHoursNum (Fin 1) \<or> num_gt lectureCreditHoursNum (Fin 3)
                 \<or> num_lt labCreditHoursNum (Fin 0) \<or> num_gt labCreditHoursNum (Fin 1)
         then (respond 400 (Message ''Invalid credit hours range''), d)
         else if truthy (prerequisites b)
         then (case prerequisites b of
                 JString s \<Rightarrow>
                   (let prerequisiteCodes = map trim (split_comma s);
                        prerequisiteCourses = find_code_in prerequisiteCodes d;
                        missing = missingCodes prerequisiteCodes prerequisiteCourses
                    in if missing \<noteq> []
                       then (respond 404
                               (Message (''Prerequisite courses not found: '' @ join missing)), d)
                       else create S b (map id' prerequisiteCourses)
                              lectureCreditHoursNum labCreditHoursNum d)
               | _ \<Rightarrow> (respond 500 (Message ''Error adding course''), d))
         else create S b [] lectureCreditHoursNum labCreditHoursNum d)"

text \<open>
  \<^verbatim>\<open>Course.findByIdAndUpdate(courseId, {...}, { new: true })\<close>. The identity of the route
  is \<open>None\<close> when the string is no identity of the store. The outer \<open>None\<close> is an
  exception (an identity or a value that cannot be cast, or a write the store refuses);
  \<open>Some None\<close> is the \<^verbatim>\<open>null\<close> returned when no document has the identity. A path whose
  value is undefined is left as it was.
\<close>

definition setPath :: "jsval \<Rightarrow> jsval \<Rightarrow> jsval" where
  "setPath new old = (if new = JUndefined then old else new)"

definition findByIdAndUpdate ::
    "schema \<Rightarrow> nat option \<Rightarrow> body \<Rightarrow> nat list \<Rightarrow> db \<Rightarrow> (course option \<times> db) option" where
  "findByIdAndUpdate S courseId b ids d =
     Option.bind courseId (\<lambda>i.
     Option.bind (castPath S Code (code b)) (\<lambda>c.
     Option.bind (castPath S Name (name b)) (\<lambda>n.
     Option.bind (castPath S Department (department b)) (\<lambda>dp.
     Option.bind (castPath S Semester (semester b)) (\<lambda>sm.
     Option.bind (castPath S LectureCreditHours (lectureCreditHours b)) (\<lambda>lc.
     Option.bind (castPath S LabCreditHours (labCreditHours b)) (\<lambda>lb.
       case findById i d of
         None \<Rightarrow> Some (None, d)
       | Some old \<Rightarrow>
           (let updatedCourse =
                  \<lparr>code = setPath c (code old), name = setPath n (name old),
                   department = setPath dp (department old),
                   semester = setPath sm (semester old),
                   lectureCreditHours = setPath lc (lectureCreditHours old),
                   labCreditHours = setPath lb (labCreditHours old),
                   prerequisites = ids, id' = i\<rparr>
            in if updateOk S (deleteFirst i (courses d)) updatedCourse
               then Some (Some updatedCourse,
                          d\<lparr>courses := replaceFirst i updatedCourse (courses d)\<rparr>)
               else None))))))))"

text \<open>Lines 84 to 105 of \<^verbatim>\<open>updateCourse\<close>.\<close>

definition update :: "schema \<Rightarrow> nat option \<Rightarrow> body \<Rightarrow> nat list \<Rightarrow> db \<Rightarrow> response \<times> db" where
  "update S courseId b ids d =
     (case findByIdAndUpdate S courseId b ids d of
        None \<Rightarrow> (respond 500 (Message ''Error updating course''), d)
      | Some (None, d') \<Rightarrow> (respond 404 (Message ''Course not found''), d')
      | Some (Some updatedCourse, d') \<Rightarrow>
          (respond 200 (MessageCourse ''Course updated successfully'' updatedCourse), d'))"

definition updateCourse :: "schema \<Rightarrow> nat option \<Rightarrow> body \<Rightarrow> db \<Rightarrow> response \<times> db" where
  "updateCourse S courseId b d =
     (if num_lt (toNumber (lectureCreditHours b)) (Fin 1)
         \<or> num_gt (toNumber (lectureCreditHours b)) (Fin 3)
         \<or> num_lt (toNumber (labCreditHours b)) (Fin 0)
         \<or> num_gt (toNumber (labCreditHours b)) (Fin 1)
      then (respond 400 (Message ''Invalid credit hours''), d)
      else if truthy (prerequisites b)
      then (case prerequisites b of
              JString s \<Rightarrow>
                (let prerequisiteCodes = split_comma s;
                     prerequisiteCourses = find_code_in prerequisiteCodes d;
                     missing = missingCodes prerequisiteCodes prerequisiteCourses
                 in if missing \<noteq> []
                    then (respond 404
                            (Message (''Prerequisite courses not found: '' @ join missing)), d)
                    else update S courseId b (map id' prerequisiteCourses) d)
            | _ \<Rightarrow> (respond 500 (Message ''Error updating course''), d))
      else update S courseId b [] d)"

text \<open>\<^verbatim>\<open>Course.findByIdAndDelete(courseId)\<close> and the answer of \<^verbatim>\<open>deleteCourse\<close>.\<close>

definition deleteCourse :: "nat option \<Rightarrow> db \<Rightarrow> response \<times> db" where
  "deleteCourse courseId d =
     (case courseId of
        None \<Rightarrow> (respond 500 (Message ''Error deleting course''), d)
      | Some i \<Rightarrow>
          (case findById i d of
             None \<Rightarrow> (respond 404 (Message ''Course not found''), d)
           | Some deletedCourse \<Rightarrow>
               (respond 200 (Message ''Course deleted successfully''),
                d\<lparr>courses := deleteFirst i (courses d)\<rparr>)))"

definition getAllCourses :: "db \<Rightarrow> response" where
  "getAllCourses d = respond 200 (Courses (map (populate d) (courses d)))"

text \<open>
  \<^verbatim>\<open>req.query\<close> maps a parameter name to the string given for it. A parameter that is
  absent or empty is falsy and adds nothing to the query object.
\<close>

type_synonym query = "string \<Rightarrow> string option"

fun supplied :: "string option \<Rightarrow> string option" where
  "supplied None = None"
| "supplied (Some s) = (if s = [] then None else Some s)"

text \<open>The query object handed to \<^verbatim>\<open>Course.find\<close>: one optional condition per operator.\<close>

record conditions =
  code_regex :: "string option"
  name_regex :: "string option"
  department_regex :: "string option"
  semester_eq :: "string option"
  lectureCreditHours_gte :: "jsnum option"
  lectureCreditHours_lte :: "jsnum option"
  labCreditHours_gte :: "jsnum option"
  labCreditHours_lte :: "jsnum option"

definition buildQuery :: "query \<Rightarrow> conditions" where
  "buildQuery q =
     \<lparr>code_regex = supplied (q ''code''),
      name_regex = supplied (q ''name''),
      department_regex = supplied (q ''department''),
      semester_eq = supplied (q ''semester''),
      lectureCreditHours_gte = map_option parseInt (supplied (q ''minLectureHours'')),
      lectureCreditHours_lte = map_option parseInt (supplied (q ''maxLectureHours'')),
      labCreditHours_gte = map_option parseInt (supplied (q ''minLabHours'')),
      labCreditHours_lte = map_option parseInt (supplied (q ''maxLabHours''))\<rparr>"

text \<open>
  The store's \<^verbatim>\<open>$regex\<close> operator with option \<^verbatim>\<open>i\<close> is a parameter: it compiles a
  pattern to a test on strings, or refuses the pattern.
\<close>

type_synonym regex = "string \<Rightarrow> (string \<Rightarrow> bool) option"

fun regexHolds :: "regex \<Rightarrow> string option \<Rightarrow> jsval \<Rightarrow> bool" where
  "regexHolds rx None v = True"
| "regexHolds rx (Some pat) (JString s) = (case rx pat of None \<Rightarrow> False | Some m \<Rightarrow> m s)"
| "regexHolds rx (Some pat) v = False"

fun eqHolds :: "string option \<Rightarrow> jsval \<Rightarrow> bool" where
  "eqHolds None v = True"
| "eqHolds (Some s) v = (v = JString s)"

fun gteHolds :: "jsnum option \<Rightarrow> jsval \<Rightarrow> bool" where
  "gteHolds None v = True"
| "gteHolds (Some b) (JNumber x) = num_le b x"
| "gteHolds (Some b) v = False"

fun lteHolds :: "jsnum option \<Rightarrow> jsval \<Rightarrow> bool" where
  "lteHolds None v = True"
| "lteHolds (Some b) (JNumber x) = num_le x b"
| "lteHolds (Some b) v = False"

definition matches :: "regex \<Rightarrow> conditions \<Rightarrow> course \<Rightarrow> bool" where
  "matches rx m c =
     (regexHolds rx (code_regex m) (code c)
      \<and> regexHolds rx (name_regex m) (name c)
      \<and> regexHolds rx (department_regex m) (department c)
      \<and> eqHolds (semester_eq m) (semester c)
      \<and> gteHolds (lectureCreditHours_gte m) (lectureCreditHours c)
      \<and> lteHolds (lectureCreditHours_lte m) (lectureCreditHours c)
      \<and> gteHolds (labCreditHours_gte m) (labCreditHours c)
      \<and> lteHolds (labCreditHours_lte m) (labCreditHours c))"

text \<open>
  A query is refused with an exception when a pattern does not compile or a bound on a
  number path is NaN.
\<close>

fun patternOk :: "regex \<Rightarrow> string option \<Rightarrow> bool" where
  "patternOk rx None = True"
| "patternOk rx (Some pat) = (rx pat \<noteq> None)"

fun boundOk :: "jsnum option \<Rightarrow> bool" where
  "boundOk None = True"
| "boundOk (Some b) = (\<not> isNaN b)"

definition queryOk :: "regex \<Rightarrow> conditions \<Rightarrow> bool" where
  "queryOk rx m =
     (patternOk rx (code_regex m) \<and> patternOk rx (name_regex m)
      \<and> patternOk rx (department_regex m)
      \<and> boundOk (lectureCreditHours_gte m) \<and> boundOk (lectureCreditHours_lte m)
      \<and> boundOk (labCreditHours_gte m) \<and> boundOk (labCreditHours_lte m))"

definition find_query :: "regex \<Rightarrow> conditions \<Rightarrow> db \<Rightarrow> course list option" where
  "find_query rx m d = (if queryOk rx m then Some (filter (matches rx m) (courses d)) else None)"

definition searchCourse :: "regex \<Rightarrow> query \<Rightarrow> db \<Rightarrow> response" where
  "searchCourse rx q d =
     (case find_query rx (buildQuery q) d of
        None \<Rightarrow> respond 500 (Message ''Error searching for courses'')
      | Some found \<Rightarrow>
          if length found = 0
          then respond 404 (Message ''No courses found matching the criteria'')
          else respond 200 (Courses (map (populate d) found)))"

section \<open>A schema and a pattern operator to run the controller on\<close>

text \<open>
  Modelled from the spec: \<^verbatim>\<open>models/courseSchema.js\<close> is not in the sources. Section 3 of
  the specification gives a course a unique string \<open>code\<close>, strings \<open>name\<close>,
  \<open>department\<close> and \<open>semester\<close> (all required) and numeric lecture and lab hours. A
  string path stores strings and refuses numbers and booleans; a number path stores a
  number that is not NaN, or the number a string denotes.
\<close>

fun castString :: "jsval \<Rightarrow> jsval option" where
  "castString (JNumber n) = None"
| "castString (JBool b) = None"
| "castString v = Some v"

fun castNumber :: "jsval \<Rightarrow> jsval option" where
  "castNumber (JNumber n) = (if isNaN n then None else Some (JNumber n))"
| "castNumber (JString s) =
     (if s = [] then Some JNull
      else if isNaN (stringToNumber s) then None else Some (JNumber (stringToNumber s)))"
| "castNumber (JBool b) = Some (JNumber (if b then Fin 1 else Fin 0))"
| "castNumber v = Some v"

fun isText :: "jsval \<Rightarrow> bool" where
  "isText (JString s) = (s \<noteq> [])"
| "isText v = False"

fun isNumeric :: "jsval \<Rightarrow> bool" where
  "isNumeric (JNumber n) = True"
| "isNumeric v = False"

definition courseSchema :: schema where
  "courseSchema =
     \<lparr>castPath = (\<lambda>p. case p of LectureCreditHours \<Rightarrow> castNumber
                            | LabCreditHours \<Rightarrow> castNumber
                            | _ \<Rightarrow> castString),
      saveOk = (\<lambda>others c. isText (code c) \<and> isText (name c) \<and> isText (department c)
                            \<and> isText (semester c) \<and> isNumeric (lectureCreditHours c)
                            \<and> isNumeric (labCreditHours c)
                            \<and> \<not> list_ex (\<lambda>o'. code o' = code c) others),
      updateOk = (\<lambda>others c. \<not> list_ex (\<lambda>o'. code o' = code c) others)\<rparr>"

text \<open>
  Modelled from the spec: the store's pattern operator is not repository code. Section 6
  of the specification describes it as a case-insensitive substring match; letters are
  compared after folding \<open>A\<close> to \<open>Z\<close> to lower case. The properties of the search
  are stated for this operator.
\<close>

definition toLower :: "char \<Rightarrow> char" where
  "toLower c =
     (if 65 \<le> (of_char c :: nat) \<and> (of_char c :: nat) \<le> 90
      then char_of ((of_char c :: nat) + 32) else c)"

fun isPrefix :: "string \<Rightarrow> string \<Rightarrow> bool" where
  "isPrefix [] s = True"
| "isPrefix (p # ps) [] = False"
| "isPrefix (p # ps) (c # cs) = (p = c \<and> isPrefix ps cs)"

fun includes_str :: "string \<Rightarrow> string \<Rightarrow> bool" where
  "includes_str p [] = (p = [])"
| "includes_str p (c # cs) = (isPrefix p (c # cs) \<or> includes_str p cs)"

definition ci_substring :: regex where
  "ci_substring pat = Some (\<lambda>s. includes_str (map toLower pat) (map toLower s))"

section \<open>Sample data\<close>

text \<open>A collection with the courses CS101 and CS102, and requests against it.\<close>

definition cs101 :: course where
  "cs101 =
     \<lparr>code = JString ''CS101'', name = JString ''Programming'', department = JString ''CS'',
      semester = JString ''Fall'', lectureCreditHours = JNumber (Fin 3),
      labCreditHours = JNumber (Fin 1), prerequisites = [], id' = 0\<rparr>"

definition cs102 :: course where
  "cs102 =
     \<lparr>code = JString ''CS102'', name = JString ''Data Structures'', department = JString ''CS'',
      semester = JString ''Spring'', lectureCreditHours = JNumber (Fin (3 / 2)),
      labCreditHours = JNumber (Fin 0), prerequisites = [0], id' = 1\<rparr>"

definition db0 :: db where
  "db0 = \<lparr>courses = [cs101, cs102], nextId = 2\<rparr>"

definition request :: "jsval \<Rightarrow> jsval \<Rightarrow> jsval \<Rightarrow> body" where
  "request lecture lab prereqs =
     \<lparr>code = JString ''CS201'', name = JString ''Algorithms'', department = JString ''CS'',
      semester = JString ''Fall'', lectureCreditHours = lecture, labCreditHours = lab,
      prerequisites = prereqs\<rparr>"

section \<open>Notions the properties are stated with\<close>

text \<open>Both checks of \<^verbatim>\<open>addCourse\<close> (lines 12 and 16) let the request through.\<close>

definition createChecksPass :: "body \<Rightarrow> bool" where
  "createChecksPass b =
     (\<not> (isNaN (parseFloat (lectureCreditHours b)) \<or> isNaN (parseFloat (labCreditHours b)))
      \<and> \<not> (num_lt (parseFloat (lectureCreditHours b)) (Fin 1)
            \<or> num_gt (parseFloat (lectureCreditHours b)) (Fin 3)
            \<or> num_lt (parseFloat (labCreditHours b)) (Fin 0)
            \<or> num_gt (parseFloat (labCreditHours b)) (Fin 1)))"

text \<open>The check of \<^verbatim>\<open>updateCourse\<close> (line 64) lets the request through.\<close>

definition updateCheckPasses :: "body \<Rightarrow> bool" where
  "updateCheckPasses b =
     (\<not> (num_lt (toNumber (lectureCreditHours b)) (Fin 1)
         \<or> num_gt (toNumber (lectureCreditHours b)) (Fin 3)
         \<or> num_lt (toNumber (labCreditHours b)) (Fin 0)
         \<or> num_gt (toNumber (labCreditHours b)) (Fin 1)))"

text \<open>The requested codes that no course of the collection carries, in request order.\<close>

definition unknownCodes :: "string list \<Rightarrow> db \<Rightarrow> string list" where
  "unknownCodes codes d = filter (\<lambda>c. \<not> list_ex (\<lambda>k. code k = JString c) (courses d)) codes"

text \<open>The identities of the courses whose code is one of the requested, in store order.\<close>

definition idsOfCodes :: "string list \<Rightarrow> db \<Rightarrow> nat list" where
  "idsOfCodes codes d =
     map id' (filter (\<lambda>k. list_ex (\<lambda>c. code k = JString c) codes) (courses d))"

text \<open>
  The filters of a search in the words of the specification, read off the request
  parameters: a case-insensitive substring filter on a text field, an exact filter, and
  an inclusive lower or upper bound on a number field, the bound being the number the
  parameter denotes (read by \<^verbatim>\<open>parseFloat\<close>, as \<^verbatim>\<open>addCourse\<close> reads credit hours). An
  absent parameter constrains nothing.
\<close>

definition substringFilter :: "string option \<Rightarrow> jsval \<Rightarrow> bool" where
  "substringFilter p v =
     (case p of
        None \<Rightarrow> True
      | Some t \<Rightarrow>
          (case v of
             JString s \<Rightarrow> includes_str (map toLower t) (map toLower s)
           | _ \<Rightarrow> False))"

definition exactFilter :: "string option \<Rightarrow> jsval \<Rightarrow> bool" where
  "exactFilter p v = (case p of None \<Rightarrow> True | Some t \<Rightarrow> v = JString t)"

definition minFilter :: "string option \<Rightarrow> jsval \<Rightarrow> bool" where
  "minFilter p v =
     (case p of
        None \<Rightarrow> True
      | Some t \<Rightarrow> (case v of JNumber x \<Rightarrow> num_le (parseFloat (JString t)) x | _ \<Rightarrow> False))"

definition maxFilter :: "string option \<Rightarrow> jsval \<Rightarrow> bool" where
  "maxFilter p v =
     (case p of
        None \<Rightarrow> True
      | Some t \<Rightarrow> (case v of JNumber x \<Rightarrow> num_le x (parseFloat (JString t)) | _ \<Rightarrow> False))"

definition satisfies :: "query \<Rightarrow> course \<Rightarrow> bool" where
  "satisfies q c =
     (substringFilter (q ''code'') (code c)
      \<and> substringFilter (q ''name'') (name c)
      \<and> substringFilter (q ''department'') (department c)
      \<and> exactFilter (q ''semester'') (semester c)
      \<and> minFilter (q ''minLectureHours'') (lectureCreditHours c)
      \<and> maxFilter (q ''maxLectureHours'') (lectureCreditHours c)
      \<and> minFilter (q ''minLabHours'') (labCreditHours c)
      \<and> maxFilter (q ''maxLabHours'') (labCreditHours c))"




section \<open>Properties\<close>

lemma status_respond [simp]: "status (respond n j) = n" "json (respond n j) = j"
  by (simp_all add: respond_def)

lemma parseFloat_rounds_to_double:
  "parseFloat (JString ''3.0000000000000001'') = Fin 3"
  "parseFloat (JString ''0.1'') = Fin (3602879701896397 / 36028797018963968)"
  "parseInt ''9007199254740993'' = Fin 9007199254740992"
  by code_simp+

lemma addCourse_rounded_hours:
  "status (fst (addCourse courseSchema
      (request (JString ''3.0000000000000001'') (JNumber (Fin 0)) JUndefined) db0)) = 201"
  by code_simp

lemma missingCodes_find: "missingCodes codes (find_code_in codes d) = unknownCodes codes d"
  unfolding missingCodes_def find_code_in_def unknownCodes_def
  by (rule filter_cong) (auto simp: list_ex_iff)

lemma ids_find: "map id' (find_code_in codes d) = idsOfCodes codes d"
  by (simp add: find_code_in_def idsOfCodes_def)

lemma create_cases:
  "create S b ids l h d = (respond 500 (Message ''Error adding course''), d)
   \<or> (\<exists>c. create S b ids l h d =
             (respond 201 (MessageCourse ''Course added successfully'' c),
              d\<lparr>courses := courses d @ [c], nextId := Suc (nextId d)\<rparr>)
          \<and> prerequisites c = ids \<and> id' c = nextId d)"
  unfolding create_def newCourse_def
  by (auto split: option.splits simp: bind_eq_Some_conv)

lemma addCourse_missing:
  assumes "createChecksPass b" "prerequisites b = JString s" "s \<noteq> []"
    and "unknownCodes (map trim (split_comma s)) d \<noteq> []"
  shows "addCourse S b d =
    (respond 404 (Message (''Prerequisite courses not found: ''
        @ join (unknownCodes (map trim (split_comma s)) d))), d)"
  using assms unfolding addCourse_def createChecksPass_def
  by (simp add: Let_def missingCodes_find)

lemma addCourse_resolved:
  assumes "createChecksPass b" "prerequisites b = JString s" "s \<noteq> []"
    and "unknownCodes (map trim (split_comma s)) d = []"
  shows "addCourse S b d =
    create S b (idsOfCodes (map trim (split_comma s)) d)
      (parseFloat (lectureCreditHours b)) (parseFloat (labCreditHours b)) d"
  using assms unfolding addCourse_def createChecksPass_def
  by (simp add: Let_def missingCodes_find ids_find)

subsection \<open>CreateCourse: the credit-hour checks\<close>

text \<open>
  C2. \<^verbatim>\<open>addCourse\<close> answers 400 exactly when a credit-hour field does not parse as a
  number or a parsed value lies outside its range (lecture hours below 1 or above 3, lab
  hours below 0 or above 1). A 400 leaves the collection as it was. The check for a number
  comes first: when either field is not a number the message is the one of that check,
  and the range message is given only when both fields are numbers.
\<close>

theorem addCourse_invalid_input:
  "(status (fst (addCourse S b d)) = 400) =
     (isNaN (parseFloat (lectureCreditHours b)) \<or> isNaN (parseFloat (labCreditHours b))
      \<or> num_lt (parseFloat (lectureCreditHours b)) (Fin 1)
      \<or> num_gt (parseFloat (lectureCreditHours b)) (Fin 3)
      \<or> num_lt (parseFloat (labCreditHours b)) (Fin 0)
      \<or> num_gt (parseFloat (labCreditHours b)) (Fin 1))
   \<and> (status (fst (addCourse S b d)) = 400 \<longrightarrow> snd (addCourse S b d) = d)
   \<and> (isNaN (parseFloat (lectureCreditHours b)) \<or> isNaN (parseFloat (labCreditHours b))
        \<longrightarrow> json (fst (addCourse S b d)) = Message ''Invalid credit hours, must be a number'')
   \<and> (status (fst (addCourse S b d)) = 400
        \<and> \<not> (isNaN (parseFloat (lectureCreditHours b)) \<or> isNaN (parseFloat (labCreditHours b)))
        \<longrightarrow> json (fst (addCourse S b d)) = Message ''Invalid credit hours range'')"
proof -
  have other: "createChecksPass b \<Longrightarrow> status (fst (addCourse S b d)) \<noteq> 400"
    unfolding addCourse_def createChecksPass_def create_def
    by (auto simp: Let_def split: jsval.splits option.splits)
  have nan: "isNaN (parseFloat (lectureCreditHours b)) \<or> isNaN (parseFloat (labCreditHours b))
      \<Longrightarrow> addCourse S b d = (respond 400 (Message ''Invalid credit hours, must be a number''), d)"
    by (simp add: addCourse_def Let_def)
  have range: "\<not> createChecksPass b \<Longrightarrow>
      \<not> (isNaN (parseFloat (lectureCreditHours b)) \<or> isNaN (parseFloat (labCreditHours b)))
      \<Longrightarrow> addCourse S b d = (respond 400 (Message ''Invalid credit hours range''), d)"
    unfolding addCourse_def createChecksPass_def by (simp add: Let_def)
  consider (A) "isNaN (parseFloat (lectureCreditHours b)) \<or> isNaN (parseFloat (labCreditHours b))"
    | (B) "\<not> (isNaN (parseFloat (lectureCreditHours b)) \<or> isNaN (parseFloat (labCreditHours b)))"
          "\<not> createChecksPass b"
    | (C) "createChecksPass b"
    by blast
  then show ?thesis
  proof cases
    case A
    then show ?thesis using nan [OF A] by auto
  next
    case B
    then show ?thesis using range [OF B(2) B(1)] by (auto simp: createChecksPass_def)
  next
    case C
    then show ?thesis using other [OF C] by (auto simp: createChecksPass_def)
  qed
qed

theorem addCourse_invalid_input_witness:
  "addCourse courseSchema (request (JString ''abc'') (JNumber (Fin 0)) JUndefined) db0
     = (respond 400 (Message ''Invalid credit hours, must be a number''), db0)
   \<and> addCourse courseSchema (request (JString ''3.5'') (JString ''abc'') JUndefined) db0
     = (respond 400 (Message ''Invalid credit hours, must be a number''), db0)
   \<and> addCourse courseSchema (request (JString ''3.5'') (JNumber (Fin 0)) JUndefined) db0
     = (respond 400 (Message ''Invalid credit hours range''), db0)
   \<and> status (fst (addCourse courseSchema
        (request (JString ''2.5'') (JNumber (Fin 1)) JUndefined) db0)) \<noteq> 400"
proof -
  let ?a = "request (JString ''abc'') (JNumber (Fin 0)) JUndefined"
  let ?b = "request (JString ''3.5'') (JString ''abc'') JUndefined"
  let ?c = "request (JString ''3.5'') (JNumber (Fin 0)) JUndefined"
  let ?e = "request (JString ''2.5'') (JNumber (Fin 1)) JUndefined"
  have a: "isNaN (parseFloat (lectureCreditHours ?a))" by code_simp
  have b: "isNaN (parseFloat (labCreditHours ?b))" by code_simp
  have c: "\<not> (isNaN (parseFloat (lectureCreditHours ?c)) \<or> isNaN (parseFloat (labCreditHours ?c)))"
    "num_gt (parseFloat (lectureCreditHours ?c)) (Fin 3)"
    by code_simp+
  have e: "\<not> (isNaN (parseFloat (lectureCreditHours ?e)) \<or> isNaN (parseFloat (labCreditHours ?e))
      \<or> num_lt (parseFloat (lectureCreditHours ?e)) (Fin 1)
      \<or> num_gt (parseFloat (lectureCreditHours ?e)) (Fin 3)
      \<or> num_lt (parseFloat (labCreditHours ?e)) (Fin 0)
      \<or> num_gt (parseFloat (labCreditHours ?e)) (Fin 1))"
    by code_simp
  have split: "r = (respond n j, d)" if "status (fst r) = n" "json (fst r) = j" "snd r = d"
    for r :: "response \<times> db" and n j d
    using that by (cases r) (auto simp: respond_def)
  have A: "addCourse courseSchema ?a db0
     = (respond 400 (Message ''Invalid credit hours, must be a number''), db0)"
    using addCourse_invalid_input [of courseSchema ?a db0] a by (intro split) blast+
  have B: "addCourse courseSchema ?b db0
     = (respond 400 (Message ''Invalid credit hours, must be a number''), db0)"
    using addCourse_invalid_input [of courseSchema ?b db0] b by (intro split) blast+
  have C: "addCourse courseSchema ?c db0
     = (respond 400 (Message ''Invalid credit hours range''), db0)"
    using addCourse_invalid_input [of courseSchema ?c db0] c by (intro split) blast+
  have E: "status (fst (addCourse courseSchema ?e db0)) \<noteq> 400"
    using addCourse_invalid_input [of courseSchema ?e db0] e by blast
  from A B C E show ?thesis by blast
qed

subsection \<open>CreateCourse: prerequisite resolution\<close>

text \<open>
  C3. Let a request pass the credit-hour checks and carry a non-empty prerequisites
  string. The string is split on commas and every piece is trimmed. If some of these codes
  is the code of no course in the collection, \<^verbatim>\<open>addCourse\<close> answers 404 with a message that
  lists exactly those codes, joined with a comma and a space, and the collection is
  unchanged. If every code is known and the store does not refuse the write (no 500), a
  new course is appended whose prerequisites are the identities of the courses carrying
  one of the codes.
\<close>

theorem addCourse_prerequisites:
  assumes "createChecksPass b" and "prerequisites b = JString s" and "s \<noteq> []"
  shows "(unknownCodes (map trim (split_comma s)) d \<noteq> [] \<longrightarrow>
            addCourse S b d =
              (respond 404 (Message (''Prerequisite courses not found: ''
                 @ join (unknownCodes (map trim (split_comma s)) d))), d))
       \<and> (unknownCodes (map trim (split_comma s)) d = []
            \<and> status (fst (addCourse S b d)) \<noteq> 500 \<longrightarrow>
            (\<exists>c. addCourse S b d =
                   (respond 201 (MessageCourse ''Course added successfully'' c),
                    d\<lparr>courses := courses d @ [c], nextId := Suc (nextId d)\<rparr>)
                \<and> prerequisites c = idsOfCodes (map trim (split_comma s)) d
                \<and> id' c = nextId d))"
proof (intro conjI impI)
  assume "unknownCodes (map trim (split_comma s)) d \<noteq> []"
  then show "addCourse S b d =
      (respond 404 (Message (''Prerequisite courses not found: ''
         @ join (unknownCodes (map trim (split_comma s)) d))), d)"
    using assms by (rule addCourse_missing [rotated 3])
next
  assume a: "unknownCodes (map trim (split_comma s)) d = [] \<and> status (fst (addCourse S b d)) \<noteq> 500"
  then have eq: "addCourse S b d =
      create S b (idsOfCodes (map trim (split_comma s)) d)
        (parseFloat (lectureCreditHours b)) (parseFloat (labCreditHours b)) d"
    using assms addCourse_resolved by blast
  from a eq create_cases [of S b "idsOfCodes (map trim (split_comma s)) d"
      "parseFloat (lectureCreditHours b)" "parseFloat (labCreditHours b)" d]
  show "\<exists>c. addCourse S b d =
           (respond 201 (MessageCourse ''Course added successfully'' c),
            d\<lparr>courses := courses d @ [c], nextId := Suc (nextId d)\<rparr>)
         \<and> prerequisites c = idsOfCodes (map trim (split_comma s)) d
         \<and> id' c = nextId d"
    by auto
qed

theorem addCourse_prerequisites_witness:
  "addCourse courseSchema
      (request (JString ''2.5'') (JNumber (Fin 0)) (JString ''CS101, CS202'')) db0
     = (respond 404 (Message ''Prerequisite courses not found: CS202''), db0)
   \<and> (\<exists>c. addCourse courseSchema
            (request (JString ''2.5'') (JNumber (Fin 0)) (JString ''CS101, CS102'')) db0
          = (respond 201 (MessageCourse ''Course added successfully'' c),
             db0\<lparr>courses := courses db0 @ [c], nextId := Suc (nextId db0)\<rparr>)
        \<and> prerequisites c = [0, 1] \<and> id' c = 2)"
proof -
  have pass: "createChecksPass (request (JString ''2.5'') (JNumber (Fin 0)) p)" for p
    by code_simp
  have pre: "prerequisites (request l h p) = p" for l h p
    by (simp add: request_def)
  have u1: "unknownCodes (map trim (split_comma ''CS101, CS202'')) db0 = [''CS202'']"
    by code_simp
  have u2: "unknownCodes (map trim (split_comma ''CS101, CS102'')) db0 = []"
    by code_simp
  have ids: "idsOfCodes (map trim (split_comma ''CS101, CS102'')) db0 = [0, 1]"
    by code_simp
  have ok: "status (fst (addCourse courseSchema
      (request (JString ''2.5'') (JNumber (Fin 0)) (JString ''CS101, CS102'')) db0)) \<noteq> 500"
    by code_simp
  have n: "nextId db0 = 2" by (simp add: db0_def)
  have first: "addCourse courseSchema
      (request (JString ''2.5'') (JNumber (Fin 0)) (JString ''CS101, CS202'')) db0
     = (respond 404 (Message ''Prerequisite courses not found: CS202''), db0)"
    using addCourse_prerequisites [OF pass pre, of "''CS101, CS202''" db0 courseSchema] u1
    by simp
  have second: "\<exists>c. addCourse courseSchema
            (request (JString ''2.5'') (JNumber (Fin 0)) (JString ''CS101, CS102'')) db0
          = (respond 201 (MessageCourse ''Course added successfully'' c),
             db0\<lparr>courses := courses db0 @ [c], nextId := Suc (nextId db0)\<rparr>)
        \<and> prerequisites c = [0, 1] \<and> id' c = 2"
    using addCourse_prerequisites [OF pass pre, of "''CS101, CS102''" db0 courseSchema] u2 ok ids n
    by simp
  from first second show ?thesis by blast
qed

subsection \<open>UpdateCourse\<close>

lemma updateCourse_rejected:
  "\<not> updateCheckPasses b \<Longrightarrow>
     updateCourse S i b d = (respond 400 (Message ''Invalid credit hours''), d)"
  unfolding updateCourse_def updateCheckPasses_def by simp

lemma updateCourse_missing:
  assumes "updateCheckPasses b" "prerequisites b = JString s" "s \<noteq> []"
    and "unknownCodes (split_comma s) d \<noteq> []"
  shows "updateCourse S i b d =
    (respond 404 (Message (''Prerequisite courses not found: ''
        @ join (unknownCodes (split_comma s) d))), d)"
  using assms unfolding updateCourse_def updateCheckPasses_def
  by (simp add: Let_def missingCodes_find)

lemma updateCourse_resolved:
  assumes "updateCheckPasses b" "prerequisites b = JString s" "s \<noteq> []"
    and "unknownCodes (split_comma s) d = []"
  shows "updateCourse S i b d = update S i b (idsOfCodes (split_comma s) d) d"
  using assms unfolding updateCourse_def updateCheckPasses_def
  by (simp add: Let_def missingCodes_find ids_find)

lemma updateCourse_no_prerequisites:
  assumes "updateCheckPasses b" "\<not> truthy (prerequisites b)"
  shows "updateCourse S i b d = update S i b [] d"
  using assms unfolding updateCourse_def updateCheckPasses_def by simp

lemma update_status: "status (fst (update S i b ids d)) \<in> {200, 404, 500}"
  unfolding update_def by (auto split: option.splits prod.splits)

lemma update_absent:
  assumes "findById k d = None"
  shows "update S (Some k) b ids d = (respond 500 (Message ''Error updating course''), d)
       \<or> update S (Some k) b ids d = (respond 404 (Message ''Course not found''), d)"
  using assms unfolding update_def findByIdAndUpdate_def
  by (auto split: option.splits prod.splits simp: bind_eq_Some_conv)

lemma updateCourse_passed_status:
  assumes "updateCheckPasses b"
  shows "status (fst (updateCourse S i b d)) \<noteq> 400"
proof -
  have u: "status (fst (update S i b ids d)) \<noteq> 400" for ids
    using update_status [of S i b ids d] by auto
  show ?thesis
    using assms u unfolding updateCourse_def updateCheckPasses_def
    by (auto simp: Let_def split: jsval.splits)
qed

text \<open>
  C5. Let a request pass the credit-hour check of \<^verbatim>\<open>updateCourse\<close> and carry a non-empty
  prerequisites string. The string is split on commas and the pieces are looked up as
  they are, surrounding white space included. If some piece is the code of no course,
  the answer is 404 with a message listing those pieces and the collection is unchanged;
  otherwise the update goes on with the identities of the courses whose code is exactly
  one of the pieces.
\<close>

theorem updateCourse_prerequisites_untrimmed:
  assumes "updateCheckPasses b" and "prerequisites b = JString s" and "s \<noteq> []"
  shows "(unknownCodes (split_comma s) d \<noteq> [] \<longrightarrow>
            updateCourse S i b d =
              (respond 404 (Message (''Prerequisite courses not found: ''
                 @ join (unknownCodes (split_comma s) d))), d))
       \<and> (unknownCodes (split_comma s) d = [] \<longrightarrow>
            updateCourse S i b d = update S i b (idsOfCodes (split_comma s) d) d)"
  using assms updateCourse_missing updateCourse_resolved by blast

theorem updateCourse_prerequisites_untrimmed_witness:
  "split_comma ''CS101, CS102'' = [''CS101'', '' CS102'']
   \<and> updateCourse courseSchema (Some 1)
        (request (JNumber (Fin 2)) (JNumber (Fin 0)) (JString ''CS101, CS102'')) db0
      = (respond 404 (Message ''Prerequisite courses not found:  CS102''), db0)
   \<and> status (fst (addCourse courseSchema
        (request (JNumber (Fin 2)) (JNumber (Fin 0)) (JString ''CS101, CS102'')) db0)) = 201"
proof -
  have pass: "updateCheckPasses (request (JNumber (Fin 2)) (JNumber (Fin 0)) p)" for p
    by code_simp
  have pre: "prerequisites (request l h p) = p" for l h p
    by (simp add: request_def)
  have sp: "split_comma ''CS101, CS102'' = [''CS101'', '' CS102'']"
    by code_simp
  have u: "unknownCodes (split_comma ''CS101, CS102'') db0 = ['' CS102'']"
    by code_simp
  have c: "status (fst (addCourse courseSchema
        (request (JNumber (Fin 2)) (JNumber (Fin 0)) (JString ''CS101, CS102'')) db0)) = 201"
    by code_simp
  show ?thesis
    using updateCourse_prerequisites_untrimmed
      [OF pass pre, of "''CS101, CS102''" db0 courseSchema "Some 1"] u sp c
    by simp
qed

text \<open>
  C9. The order of the errors of \<^verbatim>\<open>updateCourse\<close>. A request that fails the credit-hour
  check is answered 400 whatever its prerequisites and identity. A request that passes
  it and names a code of no course is answered 404 with the message listing the missing
  codes, not with \<^verbatim>\<open>Course not found\<close>, for every identity, also one of no course, and the
  collection is unchanged. Only a request that passes both steps reaches the lookup: with
  no prerequisites and an identity of no course the answer is \<^verbatim>\<open>Course not found\<close>, unless
  the store throws.
\<close>

theorem updateCourse_error_precedence:
  "(\<not> updateCheckPasses b \<longrightarrow>
      updateCourse S i b d = (respond 400 (Message ''Invalid credit hours''), d))
   \<and> (updateCheckPasses b \<and> prerequisites b = JString s \<and> s \<noteq> []
        \<and> unknownCodes (split_comma s) d \<noteq> [] \<longrightarrow>
      status (fst (updateCourse S i b d)) = 404
      \<and> json (fst (updateCourse S i b d)) =
          Message (''Prerequisite courses not found: '' @ join (unknownCodes (split_comma s) d))
      \<and> json (fst (updateCourse S i b d)) \<noteq> Message ''Course not found''
      \<and> snd (updateCourse S i b d) = d)
   \<and> (updateCheckPasses b \<and> \<not> truthy (prerequisites b) \<and> findById k d = None
        \<and> status (fst (updateCourse S (Some k) b d)) \<noteq> 500 \<longrightarrow>
      updateCourse S (Some k) b d = (respond 404 (Message ''Course not found''), d))"
proof (intro conjI impI)
  assume "\<not> updateCheckPasses b"
  then show "updateCourse S i b d = (respond 400 (Message ''Invalid credit hours''), d)"
    by (rule updateCourse_rejected)
next
  assume a: "updateCheckPasses b \<and> prerequisites b = JString s \<and> s \<noteq> []
        \<and> unknownCodes (split_comma s) d \<noteq> []"
  then have eq: "updateCourse S i b d =
    (respond 404 (Message (''Prerequisite courses not found: ''
        @ join (unknownCodes (split_comma s) d))), d)"
    using updateCourse_missing by blast
  show "status (fst (updateCourse S i b d)) = 404" by (simp add: eq)
  show "json (fst (updateCourse S i b d)) =
          Message (''Prerequisite courses not found: '' @ join (unknownCodes (split_comma s) d))"
    by (simp add: eq)
  show "json (fst (updateCourse S i b d)) \<noteq> Message ''Course not found''"
    by (simp add: eq)
  show "snd (updateCourse S i b d) = d" by (simp add: eq)
next
  assume a: "updateCheckPasses b \<and> \<not> truthy (prerequisites b) \<and> findById k d = None
        \<and> status (fst (updateCourse S (Some k) b d)) \<noteq> 500"
  then have eq: "updateCourse S (Some k) b d = update S (Some k) b [] d"
    using updateCourse_no_prerequisites by blast
  from a have "findById k d = None" by blast
  from update_absent [OF this, of S b "[]"] a eq
  show "updateCourse S (Some k) b d = (respond 404 (Message ''Course not found''), d)"
    by auto
qed

theorem updateCourse_error_precedence_witness:
  "findById 7 db0 = None
   \<and> updateCourse courseSchema (Some 7)
        (request (JNumber (Fin 2)) (JNumber (Fin 0)) (JString ''CS999'')) db0
      = (respond 404 (Message ''Prerequisite courses not found: CS999''), db0)
   \<and> updateCourse courseSchema (Some 7)
        (request (JNumber (Fin 5)) (JNumber (Fin 0)) (JString ''CS999'')) db0
      = (respond 400 (Message ''Invalid credit hours''), db0)
   \<and> updateCourse courseSchema (Some 7)
        (request (JNumber (Fin 2)) (JNumber (Fin 0)) JUndefined) db0
      = (respond 404 (Message ''Course not found''), db0)"
proof -
  have pass: "updateCheckPasses (request (JNumber (Fin 2)) (JNumber (Fin 0)) p)" for p
    by code_simp
  have fail: "\<not> updateCheckPasses (request (JNumber (Fin 5)) (JNumber (Fin 0)) p)" for p
    by code_simp
  have pre: "prerequisites (request l h p) = p" for l h p
    by (simp add: request_def)
  have u: "unknownCodes (split_comma ''CS999'') db0 = [''CS999'']"
    by code_simp
  have absent: "findById 7 db0 = None"
    by code_simp
  have ok: "status (fst (updateCourse courseSchema (Some 7)
        (request (JNumber (Fin 2)) (JNumber (Fin 0)) JUndefined) db0)) \<noteq> 500"
    by code_simp
  have a: "updateCourse courseSchema (Some 7)
        (request (JNumber (Fin 2)) (JNumber (Fin 0)) (JString ''CS999'')) db0
      = (respond 404 (Message ''Prerequisite courses not found: CS999''), db0)"
    using updateCourse_error_precedence
      [of "request (JNumber (Fin 2)) (JNumber (Fin 0)) (JString ''CS999'')" courseSchema
          "Some 7" db0 "''CS999''" 7] pass u
    by (simp add: pre prod_eq_iff respond_def)
  have b: "updateCourse courseSchema (Some 7)
        (request (JNumber (Fin 5)) (JNumber (Fin 0)) (JString ''CS999'')) db0
      = (respond 400 (Message ''Invalid credit hours''), db0)"
    using updateCourse_error_precedence
      [of "request (JNumber (Fin 5)) (JNumber (Fin 0)) (JString ''CS999'')" courseSchema
          "Some 7" db0 "''CS999''" 7] fail
    by simp
  have c: "updateCourse courseSchema (Some 7)
        (request (JNumber (Fin 2)) (JNumber (Fin 0)) JUndefined) db0
      = (respond 404 (Message ''Course not found''), db0)"
    using updateCourse_error_precedence
      [of "request (JNumber (Fin 2)) (JNumber (Fin 0)) JUndefined" courseSchema
          "Some 7" db0 "''CS999''" 7] pass absent ok
    by (simp add: pre)
  from absent a b c show ?thesis by blast
qed

subsection \<open>DeleteCourse\<close>

lemma findById_None: "(findById i d = None) = (i \<notin> set (map id' (courses d)))"
  by (auto simp: findById_def find_None_iff)

lemma deleteFirst_absent: "i \<notin> set (map id' cs) \<Longrightarrow> deleteFirst i cs = cs"
  by (induction cs) auto

lemma deleteFirst_filter:
  "distinct (map id' cs) \<Longrightarrow> deleteFirst i cs = filter (\<lambda>c. id' c \<noteq> i) cs"
proof (induction cs)
  case Nil
  then show ?case by simp
next
  case (Cons c cs)
  show ?case
  proof (cases "id' c = i")
    case True
    with Cons.prems have "i \<notin> set (map id' cs)" by auto
    then have "filter (\<lambda>c. id' c \<noteq> i) cs = cs"
      by (induction cs) auto
    with True show ?thesis by simp
  next
    case False
    with Cons show ?thesis by simp
  qed
qed

text \<open>
  C8. In a collection whose identities are distinct, \<^verbatim>\<open>deleteCourse\<close> on the identity of
  a stored course answers 200 and removes that course and no other; the identity is then
  gone, so deleting it a second time answers 404 and changes nothing. On an identity of
  no stored course it answers 404 and leaves the collection as it was.
\<close>

theorem deleteCourse_present_absent:
  assumes "wellFormed d"
  shows "(i \<in> set (map id' (courses d)) \<longrightarrow>
            deleteCourse (Some i) d =
              (respond 200 (Message ''Course deleted successfully''),
               d\<lparr>courses := filter (\<lambda>c. id' c \<noteq> i) (courses d)\<rparr>)
            \<and> i \<notin> set (map id' (courses (snd (deleteCourse (Some i) d))))
            \<and> deleteCourse (Some i) (snd (deleteCourse (Some i) d)) =
                (respond 404 (Message ''Course not found''), snd (deleteCourse (Some i) d)))
       \<and> (i \<notin> set (map id' (courses d)) \<longrightarrow>
            deleteCourse (Some i) d = (respond 404 (Message ''Course not found''), d))"
proof (intro conjI impI)
  assume absent: "i \<notin> set (map id' (courses d))"
  then have "findById i d = None" using findById_None [of i d] by blast
  then show "deleteCourse (Some i) d = (respond 404 (Message ''Course not found''), d)"
    by (simp add: deleteCourse_def)
next
  assume present: "i \<in> set (map id' (courses d))"
  from assms have dist: "distinct (map id' (courses d))" by (simp add: wellFormed_def)
  from present have "findById i d \<noteq> None" using findById_None [of i d] by blast
  then show first: "deleteCourse (Some i) d =
      (respond 200 (Message ''Course deleted successfully''),
       d\<lparr>courses := filter (\<lambda>c. id' c \<noteq> i) (courses d)\<rparr>)"
    using deleteFirst_filter [OF dist, of i] by (auto simp: deleteCourse_def)
  show gone: "i \<notin> set (map id' (courses (snd (deleteCourse (Some i) d))))"
    by (auto simp: first)
  then have "findById i (snd (deleteCourse (Some i) d)) = None"
    using findById_None [of i "snd (deleteCourse (Some i) d)"] by blast
  then show "deleteCourse (Some i) (snd (deleteCourse (Some i) d)) =
      (respond 404 (Message ''Course not found''), snd (deleteCourse (Some i) d))"
    by (simp add: deleteCourse_def)
qed

theorem deleteCourse_present_absent_witness:
  "wellFormed db0
   \<and> deleteCourse (Some 0) db0 =
       (respond 200 (Message ''Course deleted successfully''), db0\<lparr>courses := [cs102]\<rparr>)
   \<and> deleteCourse (Some 0) (db0\<lparr>courses := [cs102]\<rparr>) =
       (respond 404 (Message ''Course not found''), db0\<lparr>courses := [cs102]\<rparr>)
   \<and> deleteCourse (Some 5) db0 = (respond 404 (Message ''Course not found''), db0)"
proof -
  have w: "wellFormed db0" by code_simp
  have ids: "map id' (courses db0) = [0, 1]" by code_simp
  have f: "filter (\<lambda>c. id' c \<noteq> 0) (courses db0) = [cs102]"
    by (simp add: db0_def cs101_def cs102_def)
  have p0: "0 \<in> set (map id' (courses db0))" and p5: "5 \<notin> set (map id' (courses db0))"
    by (simp_all only: ids) simp_all
  note T = deleteCourse_present_absent [OF w]
  from T [of 0] p0 have one': "deleteCourse (Some 0) db0 =
       (respond 200 (Message ''Course deleted successfully''),
        db0\<lparr>courses := filter (\<lambda>c. id' c \<noteq> 0) (courses db0)\<rparr>)"
    and two': "deleteCourse (Some 0) (snd (deleteCourse (Some 0) db0)) =
       (respond 404 (Message ''Course not found''), snd (deleteCourse (Some 0) db0))"
    by blast+
  from one' have one: "deleteCourse (Some 0) db0 =
       (respond 200 (Message ''Course deleted successfully''), db0\<lparr>courses := [cs102]\<rparr>)"
    by (simp only: f)
  from two' have two: "deleteCourse (Some 0) (db0\<lparr>courses := [cs102]\<rparr>) =
       (respond 404 (Message ''Course not found''), db0\<lparr>courses := [cs102]\<rparr>)"
    by (simp only: one snd_conv)
  from T [of 5] p5 have three:
    "deleteCourse (Some 5) db0 = (respond 404 (Message ''Course not found''), db0)"
    by blast
  from w one two three show ?thesis by blast
qed

subsection \<open>UpdateCourse: credit hours that are not numbers\<close>

lemma num_cmp_NaN: "num_lt NaN x = False" "num_lt x NaN = False"
  "num_gt NaN x = False" "num_gt x NaN = False"
  by (cases x; simp add: num_gt_def)+

text \<open>
  C1. The check of \<^verbatim>\<open>updateCourse\<close> does not reject a value that coerces to NaN: every
  comparison with NaN is false, so the condition of line 64 is false. A request whose
  lecture hours coerce to NaN, and whose lab hours coerce to NaN or lie in the lab range,
  is never answered 400; it goes on to prerequisite resolution and the write. It is
  \<^verbatim>\<open>addCourse\<close> that answers 400 for the same fields.
\<close>

theorem updateCourse_NaN_hours_not_rejected:
  assumes "isNaN (toNumber (lectureCreditHours b))"
    and "isNaN (toNumber (labCreditHours b))
         \<or> \<not> (num_lt (toNumber (labCreditHours b)) (Fin 0)
               \<or> num_gt (toNumber (labCreditHours b)) (Fin 1))"
  shows "status (fst (updateCourse S i b d)) \<noteq> 400"
proof -
  from assms(1) have l: "toNumber (lectureCreditHours b) = NaN"
    by (cases "toNumber (lectureCreditHours b)") simp_all
  have "\<not> (num_lt (toNumber (labCreditHours b)) (Fin 0)
               \<or> num_gt (toNumber (labCreditHours b)) (Fin 1))"
    using assms(2) by (cases "toNumber (labCreditHours b)") (auto simp: num_cmp_NaN)
  with l have "updateCheckPasses b"
    by (simp add: updateCheckPasses_def num_cmp_NaN)
  then show ?thesis by (rule updateCourse_passed_status)
qed

theorem updateCourse_NaN_hours_not_rejected_witness:
  "isNaN (toNumber (JString ''abc''))
   \<and> status (fst (updateCourse courseSchema (Some 1)
        (request (JString ''abc'') (JNumber (Fin 0)) JUndefined) db0)) = 500
   \<and> status (fst (updateCourse courseSchema (Some 1)
        (request JUndefined JUndefined JUndefined) db0)) = 200
   \<and> status (fst (addCourse courseSchema
        (request (JString ''abc'') (JNumber (Fin 0)) JUndefined) db0)) = 400"
proof -
  have n: "isNaN (toNumber (lectureCreditHours
      (request (JString ''abc'') (JNumber (Fin 0)) JUndefined)))"
    by code_simp
  have m: "\<not> (num_lt (toNumber (labCreditHours
        (request (JString ''abc'') (JNumber (Fin 0)) JUndefined))) (Fin 0)
      \<or> num_gt (toNumber (labCreditHours
        (request (JString ''abc'') (JNumber (Fin 0)) JUndefined))) (Fin 1))"
    by code_simp
  have a: "isNaN (toNumber (JString ''abc''))" by code_simp
  have u: "status (fst (updateCourse courseSchema (Some 1)
        (request (JString ''abc'') (JNumber (Fin 0)) JUndefined) db0)) = 500"
    by code_simp
  have v: "status (fst (updateCourse courseSchema (Some 1)
        (request JUndefined JUndefined JUndefined) db0)) = 200"
    by code_simp
  have c: "status (fst (addCourse courseSchema
        (request (JString ''abc'') (JNumber (Fin 0)) JUndefined) db0)) = 400"
    by code_simp
  from updateCourse_NaN_hours_not_rejected [OF n disjI2 [OF m], of courseSchema "Some 1" db0]
    a u v c
  show ?thesis by blast
qed

subsection \<open>CreateCourse followed by ListCourses\<close>

lemma find_id_distinct:
  "distinct (map id' cs) \<Longrightarrow> k \<in> set cs \<Longrightarrow>
     find (\<lambda>c. id' c = id' k) (cs @ ys) = Some k"
proof (induction cs)
  case Nil
  then show ?case by simp
next
  case (Cons c cs)
  show ?case
  proof (cases "c = k")
    case True
    then show ?thesis by simp
  next
    case False
    with Cons.prems have k: "k \<in> set cs" by simp
    with Cons.prems have "id' c \<noteq> id' k" by auto
    with Cons k show ?thesis by simp
  qed
qed

lemma populate_resolved:
  assumes "distinct (map id' (courses d))" and "courses d' = courses d @ ys"
    and "set ks \<subseteq> set (courses d)"
  shows "List.map_filter (\<lambda>i. map_option project (findById i d')) (map id' ks) = map project ks"
  using assms(3)
proof (induction ks)
  case Nil
  then show ?case by (simp add: map_filter_simps)
next
  case (Cons k ks)
  then have "k \<in> set (courses d)" by simp
  then have "findById (id' k) d' = Some k"
    using find_id_distinct [OF assms(1), of k ys] by (simp add: findById_def assms(2))
  with Cons show ?case by (simp add: map_filter_simps)
qed

lemma populated_prerequisites:
  assumes "distinct (map id' (courses d))" and "courses d' = courses d @ ys"
    and "prerequisites c = idsOfCodes codes d"
  shows "map ref_code (prerequisites (populate d' c)) =
     map code (filter (\<lambda>k. list_ex (\<lambda>c. code k = JString c) codes) (courses d))"
proof -
  have "prerequisites (populate d' c) =
      map project (filter (\<lambda>k. list_ex (\<lambda>c. code k = JString c) codes) (courses d))"
    using populate_resolved [OF assms(1,2),
        of "filter (\<lambda>k. list_ex (\<lambda>c. code k = JString c) codes) (courses d)"]
    by (simp add: populate_def assms(3) idsOfCodes_def)
  then show ?thesis by (simp add: project_def comp_def)
qed

lemma split_two: "map trim (split_comma ''CS101,CS102'') = [''CS101'', ''CS102'']"
  by code_simp

text \<open>
  C7. In a collection with distinct identities that holds courses with the codes CS101
  and CS102, a request that passes the credit-hour checks with the prerequisites string
  \<^verbatim>\<open>CS101,CS102\<close> is created (201) unless the store refuses the write, and the listing of
  \<^verbatim>\<open>getAllCourses\<close> afterwards ends with the new course, whose prerequisites are expanded
  to projections carrying exactly the codes CS101 and CS102.
\<close>

theorem create_list_roundtrip:
  assumes "wellFormed d" and "createChecksPass b"
    and "prerequisites b = JString ''CS101,CS102''"
    and "list_ex (\<lambda>k. code k = JString ''CS101'') (courses d)"
    and "list_ex (\<lambda>k. code k = JString ''CS102'') (courses d)"
    and "status (fst (addCourse S b d)) \<noteq> 500"
  shows "\<exists>c listed p.
      addCourse S b d =
        (respond 201 (MessageCourse ''Course added successfully'' c),
         d\<lparr>courses := courses d @ [c], nextId := Suc (nextId d)\<rparr>)
      \<and> getAllCourses (snd (addCourse S b d)) = respond 200 (Courses (listed @ [p]))
      \<and> id' p = id' c \<and> code p = code c
      \<and> set (map ref_code (prerequisites p)) = {JString ''CS101'', JString ''CS102''}"
proof -
  let ?codes = "map trim (split_comma ''CS101,CS102'')"
  let ?d' = "d\<lparr>courses := courses d @ [c], nextId := Suc (nextId d)\<rparr>"
  from assms(1) have dist: "distinct (map id' (courses d))" by (simp add: wellFormed_def)
  have known: "unknownCodes ?codes d = []"
    using assms(4,5) by (simp add: split_two unknownCodes_def)
  have ne: "''CS101,CS102'' \<noteq> []" by simp
  from addCourse_resolved [OF assms(2,3) ne known]
  have eq: "addCourse S b d = create S b (idsOfCodes ?codes d)
      (parseFloat (lectureCreditHours b)) (parseFloat (labCreditHours b)) d" .
  with assms(6) create_cases [of S b "idsOfCodes ?codes d"
      "parseFloat (lectureCreditHours b)" "parseFloat (labCreditHours b)" d]
  obtain c where c: "addCourse S b d =
        (respond 201 (MessageCourse ''Course added successfully'' c),
         d\<lparr>courses := courses d @ [c], nextId := Suc (nextId d)\<rparr>)"
    and pre: "prerequisites c = idsOfCodes ?codes d"
    by auto
  let ?d' = "d\<lparr>courses := courses d @ [c], nextId := Suc (nextId d)\<rparr>"
  have cs: "courses ?d' = courses d @ [c]" by simp
  have listing: "getAllCourses (snd (addCourse S b d)) =
      respond 200 (Courses (map (populate ?d') (courses d) @ [populate ?d' c]))"
    by (simp add: c getAllCourses_def)
  have codes: "map ref_code (prerequisites (populate ?d' c)) =
     map code (filter (\<lambda>k. list_ex (\<lambda>c. code k = JString c) ?codes) (courses d))"
    by (rule populated_prerequisites [OF dist cs pre])
  have "set (map ref_code (prerequisites (populate ?d' c))) =
      {JString ''CS101'', JString ''CS102''}"
    unfolding codes using assms(4,5) by (force simp: split_two list_ex_iff image_iff)
  moreover have "id' (populate ?d' c) = id' c" "code (populate ?d' c) = code c"
    by (simp_all add: populate_def)
  ultimately show ?thesis using c listing by blast
qed

theorem create_list_roundtrip_witness:
  "wellFormed db0
   \<and> status (fst (addCourse courseSchema
        (request (JString ''2.5'') (JNumber (Fin 0)) (JString ''CS101,CS102'')) db0)) = 201
   \<and> (\<exists>c listed p.
        addCourse courseSchema
            (request (JString ''2.5'') (JNumber (Fin 0)) (JString ''CS101,CS102'')) db0 =
          (respond 201 (MessageCourse ''Course added successfully'' c),
           db0\<lparr>courses := courses db0 @ [c], nextId := Suc (nextId db0)\<rparr>)
        \<and> getAllCourses (snd (addCourse courseSchema
            (request (JString ''2.5'') (JNumber (Fin 0)) (JString ''CS101,CS102'')) db0))
            = respond 200 (Courses (listed @ [p]))
        \<and> id' p = id' c \<and> code p = code c
        \<and> set (map ref_code (prerequisites p)) = {JString ''CS101'', JString ''CS102''})"
proof -
  have w: "wellFormed db0" by code_simp
  have pass: "createChecksPass
      (request (JString ''2.5'') (JNumber (Fin 0)) (JString ''CS101,CS102''))"
    by code_simp
  have pre: "prerequisites
      (request (JString ''2.5'') (JNumber (Fin 0)) (JString ''CS101,CS102''))
      = JString ''CS101,CS102''"
    by (simp add: request_def)
  have e1: "list_ex (\<lambda>k. code k = JString ''CS101'') (courses db0)" by code_simp
  have e2: "list_ex (\<lambda>k. code k = JString ''CS102'') (courses db0)" by code_simp
  have st: "status (fst (addCourse courseSchema
        (request (JString ''2.5'') (JNumber (Fin 0)) (JString ''CS101,CS102'')) db0)) = 201"
    by code_simp
  then have ok: "status (fst (addCourse courseSchema
        (request (JString ''2.5'') (JNumber (Fin 0)) (JString ''CS101,CS102'')) db0)) \<noteq> 500"
    by simp
  from w st create_list_roundtrip [OF w pass pre e1 e2 ok] show ?thesis by blast
qed

subsection \<open>CreateCourse: a code listed twice\<close>

lemma count_list_distinct: "distinct xs \<Longrightarrow> x \<in> set xs \<Longrightarrow> count_list xs x = 1"
  by (induction xs) (auto simp: count_list_0_iff)

text \<open>
  C10. In a collection with distinct identities, let a request pass the credit-hour
  checks and let every code of its prerequisites string be known. If the store does not
  refuse the write, the course is created, no identity occurs twice among its stored
  prerequisites, and the identity of a course whose code is listed, once or several times
  as in \<^verbatim>\<open>CS101,CS101\<close>, occurs exactly once.
\<close>

theorem addCourse_prerequisites_deduplicated:
  assumes "wellFormed d" and "createChecksPass b"
    and "prerequisites b = JString s" and "s \<noteq> []"
    and "unknownCodes (map trim (split_comma s)) d = []"
    and "status (fst (addCourse S b d)) \<noteq> 500"
    and "k \<in> set (courses d)" and "code k = JString c"
    and "c \<in> set (map trim (split_comma s))"
  shows "\<exists>n. addCourse S b d =
        (respond 201 (MessageCourse ''Course added successfully'' n),
         d\<lparr>courses := courses d @ [n], nextId := Suc (nextId d)\<rparr>)
      \<and> distinct (prerequisites n)
      \<and> count_list (prerequisites n) (id' k) = 1"
proof -
  let ?codes = "map trim (split_comma s)"
  from assms(1) have dist: "distinct (map id' (courses d))" by (simp add: wellFormed_def)
  from addCourse_resolved [OF assms(2,3,4,5)]
  have eq: "addCourse S b d = create S b (idsOfCodes ?codes d)
      (parseFloat (lectureCreditHours b)) (parseFloat (labCreditHours b)) d" .
  with assms(6) create_cases [of S b "idsOfCodes ?codes d"
      "parseFloat (lectureCreditHours b)" "parseFloat (labCreditHours b)" d]
  obtain n where n: "addCourse S b d =
        (respond 201 (MessageCourse ''Course added successfully'' n),
         d\<lparr>courses := courses d @ [n], nextId := Suc (nextId d)\<rparr>)"
    and pre: "prerequisites n = idsOfCodes ?codes d"
    by auto
  have d: "distinct (prerequisites n)"
    unfolding pre idsOfCodes_def using dist by (rule distinct_map_filter)
  have "id' k \<in> set (prerequisites n)"
    unfolding pre idsOfCodes_def using assms(7,8,9) by (auto simp: list_ex_iff)
  with d have "count_list (prerequisites n) (id' k) = 1"
    by (rule count_list_distinct)
  with n d show ?thesis by blast
qed

theorem addCourse_prerequisites_deduplicated_witness:
  "map trim (split_comma ''CS101,CS101'') = [''CS101'', ''CS101'']
   \<and> (\<exists>n. addCourse courseSchema
            (request (JString ''2.5'') (JNumber (Fin 0)) (JString ''CS101,CS101'')) db0 =
          (respond 201 (MessageCourse ''Course added successfully'' n),
           db0\<lparr>courses := courses db0 @ [n], nextId := Suc (nextId db0)\<rparr>)
        \<and> distinct (prerequisites n)
        \<and> count_list (prerequisites n) (id' cs101) = 1)"
proof -
  have w: "wellFormed db0" by code_simp
  have pass: "createChecksPass
      (request (JString ''2.5'') (JNumber (Fin 0)) (JString ''CS101,CS101''))"
    by code_simp
  have pre: "prerequisites
      (request (JString ''2.5'') (JNumber (Fin 0)) (JString ''CS101,CS101''))
      = JString ''CS101,CS101''"
    by (simp add: request_def)
  have ne: "''CS101,CS101'' \<noteq> []" by simp
  have sp: "map trim (split_comma ''CS101,CS101'') = [''CS101'', ''CS101'']" by code_simp
  have u: "unknownCodes (map trim (split_comma ''CS101,CS101'')) db0 = []" by code_simp
  have ok: "status (fst (addCourse courseSchema
        (request (JString ''2.5'') (JNumber (Fin 0)) (JString ''CS101,CS101'')) db0)) \<noteq> 500"
    by code_simp
  have k: "cs101 \<in> set (courses db0)" by (simp add: db0_def)
  have ck: "code cs101 = JString ''CS101''" by (simp add: cs101_def)
  have m: "''CS101'' \<in> set (map trim (split_comma ''CS101,CS101''))"
    by (simp only: sp) simp
  from sp addCourse_prerequisites_deduplicated [OF w pass pre ne u ok k ck m]
  show ?thesis by blast
qed

subsection \<open>SearchCourses\<close>

















text \<open>
  C4. The hour bounds of \<^verbatim>\<open>searchCourse\<close> are read by \<^verbatim>\<open>parseInt\<close>, which cuts a
  fraction off, so the search does not return exactly the courses that satisfy the
  supplied filters. With \<^verbatim>\<open>minLectureHours=1.9\<close> the course CS102 with 1.5 lecture hours
  is returned although it is below the bound; with \<^verbatim>\<open>maxLectureHours=1.9\<close> it is left out
  although it is within the bound, and the answer is 404; with \<^verbatim>\<open>maxLabHours=.5\<close> no
  integer is read and the answer is 500, although CS102 has no lab hours.
\<close>

theorem searchCourse_bounds_truncated:
  "searchCourse ci_substring (Map.empty(''minLectureHours'' \<mapsto> ''1.9'')) db0
     = respond 200 (Courses [populate db0 cs101, populate db0 cs102])
   \<and> lectureCreditHours cs102 = JNumber (Fin (3 / 2))
   \<and> \<not> satisfies (Map.empty(''minLectureHours'' \<mapsto> ''1.9'')) cs102
   \<and> searchCourse ci_substring (Map.empty(''maxLectureHours'' \<mapsto> ''1.9'')) db0
     = respond 404 (Message ''No courses found matching the criteria'')
   \<and> satisfies (Map.empty(''maxLectureHours'' \<mapsto> ''1.9'')) cs102
   \<and> searchCourse ci_substring (Map.empty(''maxLabHours'' \<mapsto> ''.5'')) db0
     = respond 500 (Message ''Error searching for courses'')
   \<and> satisfies (Map.empty(''maxLabHours'' \<mapsto> ''.5'')) cs102"
  by code_simp

subsection \<open>The invariant of the collection\<close>

text \<open>
  Identities are distinct and below the next identity. Every operation that writes keeps
  this, whatever the schema.
\<close>

lemma set_deleteFirst: "set (deleteFirst i cs) \<subseteq> set cs"
  by (induction cs) auto

lemma distinct_deleteFirst:
  "distinct (map id' cs) \<Longrightarrow> distinct (map id' (deleteFirst i cs))"
proof (induction cs)
  case Nil
  then show ?case by simp
next
  case (Cons c cs)
  then show ?case using set_deleteFirst [of i cs] by auto
qed

lemma ids_replaceFirst: "id' n = i \<Longrightarrow> map id' (replaceFirst i n cs) = map id' cs"
  by (induction cs) auto

lemma wellFormed_create:
  assumes "wellFormed d"
  shows "wellFormed (snd (create S b ids l h d))"
proof -
  from create_cases [of S b ids l h d] show ?thesis
  proof
    assume "create S b ids l h d = (respond 500 (Message ''Error adding course''), d)"
    with assms show ?thesis by simp
  next
    assume "\<exists>c. create S b ids l h d =
             (respond 201 (MessageCourse ''Course added successfully'' c),
              d\<lparr>courses := courses d @ [c], nextId := Suc (nextId d)\<rparr>)
          \<and> prerequisites c = ids \<and> id' c = nextId d"
    then obtain c where c: "create S b ids l h d =
             (respond 201 (MessageCourse ''Course added successfully'' c),
              d\<lparr>courses := courses d @ [c], nextId := Suc (nextId d)\<rparr>)"
      and i: "id' c = nextId d" by blast
    from assms have "distinct (map id' (courses d))"
      and lt: "\<forall>k\<in>set (courses d). id' k < nextId d"
      by (simp_all add: wellFormed_def list_all_iff)
    then show ?thesis
      unfolding c using i by (auto simp: wellFormed_def list_all_iff less_Suc_eq)
  qed
qed

lemma wellFormed_addCourse: "wellFormed d \<Longrightarrow> wellFormed (snd (addCourse S b d))"
  unfolding addCourse_def
  by (auto simp: Let_def wellFormed_create split: jsval.splits)

lemma wellFormed_deleteCourse: "wellFormed d \<Longrightarrow> wellFormed (snd (deleteCourse i d))"
  unfolding deleteCourse_def wellFormed_def
  using set_deleteFirst
  by (auto simp: list_all_iff distinct_deleteFirst split: option.splits)

lemma findByIdAndUpdate_cases:
  assumes "findByIdAndUpdate S i b ids d = Some (u, d')"
  shows "(u = None \<and> d' = d)
       \<or> (\<exists>k n. i = Some k \<and> u = Some n \<and> id' n = k \<and> prerequisites n = ids
              \<and> d' = d\<lparr>courses := replaceFirst k n (courses d)\<rparr>)"
proof -
  from assms obtain k c n dp sm lc lb where k: "i = Some k"
    and body: "(case findById k d of
         None \<Rightarrow> Some (None, d)
       | Some old \<Rightarrow>
           (let updatedCourse =
                  \<lparr>code = setPath c (code old), name = setPath n (name old),
                   department = setPath dp (department old),
                   semester = setPath sm (semester old),
                   lectureCreditHours = setPath lc (lectureCreditHours old),
                   labCreditHours = setPath lb (labCreditHours old),
                   prerequisites = ids, id' = k\<rparr>
            in if updateOk S (deleteFirst k (courses d)) updatedCourse
               then Some (Some updatedCourse,
                          d\<lparr>courses := replaceFirst k updatedCourse (courses d)\<rparr>)
               else None)) = Some (u, d')"
    unfolding findByIdAndUpdate_def by (auto simp: bind_eq_Some_conv)
  show ?thesis
  proof (cases "findById k d")
    case None
    with body show ?thesis by simp
  next
    case (Some old)
    let ?n = "\<lparr>code = setPath c (code old), name = setPath n (name old),
                   department = setPath dp (department old),
                   semester = setPath sm (semester old),
                   lectureCreditHours = setPath lc (lectureCreditHours old),
                   labCreditHours = setPath lb (labCreditHours old),
                   prerequisites = ids, id' = k\<rparr>"
    from body Some have "u = Some ?n" and "d' = d\<lparr>courses := replaceFirst k ?n (courses d)\<rparr>"
      by (simp_all add: Let_def split: if_splits)
    moreover have "id' ?n = k" and "prerequisites ?n = ids" by simp_all
    ultimately show ?thesis using k by blast
  qed
qed

lemma wellFormed_update:
  assumes "wellFormed d"
  shows "wellFormed (snd (update S i b ids d))"
proof (cases "findByIdAndUpdate S i b ids d")
  case None
  with assms show ?thesis by (simp add: update_def)
next
  case (Some r)
  obtain u d' where r: "r = (u, d')" by (cases r)
  have "wellFormed d'"
    using findByIdAndUpdate_cases [OF Some [unfolded r]]
  proof
    assume "u = None \<and> d' = d"
    with assms show ?thesis by simp
  next
    assume "\<exists>k n. i = Some k \<and> u = Some n \<and> id' n = k \<and> prerequisites n = ids
              \<and> d' = d\<lparr>courses := replaceFirst k n (courses d)\<rparr>"
    then obtain k n where n: "id' n = k"
      and d': "d' = d\<lparr>courses := replaceFirst k n (courses d)\<rparr>"
      by blast
    have ids: "map id' (courses d') = map id' (courses d)"
      by (simp add: d' ids_replaceFirst [OF n])
    have "list_all (\<lambda>c. id' c < m) cs = list_all (\<lambda>j. j < m) (map id' cs)"
      for cs :: "course list" and m
      by (simp add: list_all_iff)
    moreover have "nextId d' = nextId d" by (simp add: d')
    ultimately show ?thesis using assms ids unfolding wellFormed_def by metis
  qed
  with Some r show ?thesis by (cases u) (simp_all add: update_def)
qed

lemma wellFormed_updateCourse: "wellFormed d \<Longrightarrow> wellFormed (snd (updateCourse S i b d))"
  unfolding updateCourse_def
  by (auto simp: Let_def wellFormed_update split: jsval.splits)

end
